theory Spec2Isabelle
  imports Main "HOL-Library.Sublist"
begin

section \<open>The updater plug-in (plugins/updater/updater.c)\<close>

text \<open>
  The plug-in is a set of GTK/GLib callbacks around one \<open>UpdaterPlugin\<close> structure.
  Every callback is embedded as a function on a \<open>world\<close>: the structure itself together
  with the parts of the process that the callbacks read or change (the answers of
  \<open>system()\<close>, the GLib event sources, the PackageKit requests in flight, the dialogs,
  notifications and subprocesses produced so far, and the callbacks the main loop has run).

  Conventions of the embedding:
  \<^item> a pointer that may be NULL is an \<open>option\<close>; freeing memory (\<open>g_strfreev\<close>,
    \<open>g_object_unref\<close>, \<open>g_free\<close>) has no counterpart;
  \<^item> the gettext macro leaves a message as it is written in the source;
  \<^item> \<open>g_thread_new\<close> runs \<open>refresh_update_cache\<close>, whose one effect is to put a
    cache refresh request in flight; the request completes later, as an event;
  \<^item> GLib hands out source ids from a counter; the model's counter is a natural number
    that does not wrap;
  \<^item> \<open>interval * SECS_PER_HOUR\<close> is formed in \<open>long\<close>, where it is exact for every
    32-bit \<open>interval\<close> when \<open>long\<close> has 64 bits, and is then converted to the
    \<open>guint\<close> parameter of \<open>g_timeout_add_seconds\<close>;
  \<^item> time is a counter of seconds, advanced by an event of its own.
\<close>

subsection \<open>Shell probes\<close>

text \<open>
  The six command lines handed to \<open>system()\<close>:
  \<^item> \<open>Hostname_has_ip\<close>: hostname -I piped into a grep for a dot (\<open>net_available\<close>);
  \<^item> \<open>Test_ntpd\<close>: test -e /usr/sbin/ntpd;
  \<^item> \<open>Ntpq_peer\<close>: ntpq -p piped into a grep for a line starting with an asterisk;
  \<^item> \<open>Timedatectl_sync\<close>: timedatectl status piped into a grep for "synchronized: yes";
  \<^item> \<open>Raspi_is_pi\<close>: raspi-config nonint is_pi;
  \<^item> \<open>Ps_piwiz\<close>: ps ax, without the grep itself, piped into a grep for piwiz.
\<close>

datatype command =
    Hostname_has_ip
  | Test_ntpd
  | Ntpq_peer
  | Timedatectl_sync
  | Raspi_is_pi
  | Ps_piwiz

subsection \<open>Data\<close>

type_synonym widget = nat

text \<open>A PackageKit package: its id is name;version;arch;data, kept split as the library does.\<close>

record PkPackage =
  pk_name :: string
  pk_version :: string
  pk_arch :: string
  pk_data :: string

text \<open>
  The fields of \<open>UpdaterPlugin\<close> that the callbacks below use. \<open>ids\<close> is \<open>None\<close> for the
  NULL pointer, \<open>update_dlg\<close> likewise; \<open>timer\<close> is a GLib source id, 0 for none;
  \<open>settings\<close> is the plug-in's configuration group.
\<close>

record UpdaterPlugin =
  settings :: "string \<rightharpoonup> int"
  update_dlg :: "widget option"
  n_updates :: int
  ids :: "string list option"
  interval :: int
  timer :: nat

text \<open>An argument of a printf-style format.\<close>

datatype arg = ArgS string | ArgD int

text \<open>The modal box built by \<open>message\<close>.\<close>

datatype pb_state = Pb_idle | Pb_fraction int | Pb_pulse

record modal =
  modal_msg :: string
  modal_ok_visible :: bool
  modal_pb_visible :: bool
  modal_pb :: pb_state

text \<open>One call of \<open>g_spawn_async\<close>.\<close>

record spawn =
  argv :: "string list"
  envp :: "string \<rightharpoonup> string"
  search_path :: bool

text \<open>PackageKit requests in flight; each completes into the callback it was given.\<close>

datatype request = Refresh_cache | Get_updates

text \<open>
  GLib event sources. An idle source has no period; a timeout source created by
  \<open>g_timeout_add_seconds\<close> has a period in seconds and the time it is next due.
\<close>

datatype callback = Init_check | Net_check | Periodic_check

record source =
  sid :: nat
  cb :: callback
  period :: "nat option"
  due :: nat

record world =
  up :: UpdaterPlugin
  sys_oracle :: "nat \<Rightarrow> command \<Rightarrow> int"
  sys_calls :: nat
  environ :: "string \<rightharpoonup> string"
  g_log :: "(string \<times> arg list) list"
  shown :: "modal list"
  spawned :: "spawn list"
  notified :: "string list"
  pending :: "request list"
  sources :: "source list"
  next_source :: nat
  now :: nat
  plugin_visible :: bool
  plugin_sensitive :: bool
  destroyed :: "widget list"
  fired :: "callback list"

subsection \<open>C and library primitives\<close>

text \<open>
  \<open>system\<close>: the exit status of the k-th call in the life of the process is whatever the
  environment answers then; the model reads it from \<open>sys_oracle\<close> and counts the call.
\<close>

definition system :: "command \<Rightarrow> world \<Rightarrow> int \<times> world" where
  "system c w = (sys_oracle w (sys_calls w) c, w\<lparr>sys_calls := Suc (sys_calls w)\<rparr>)"

text \<open>Conversion of a C integer to \<open>guint\<close> (32 bits, unsigned) and to \<open>int\<close> (32 bits, signed).\<close>

definition guint :: "int \<Rightarrow> nat" where
  "guint i = nat (i mod 2 ^ 32)"

definition gint :: "int \<Rightarrow> int" where
  "gint i = signed_take_bit 31 i"

definition SECS_PER_HOUR :: int where
  "SECS_PER_HOUR = 3600"

text \<open>\<open>strstr\<close>: the tail of the haystack at the first occurrence of the needle, or NULL.\<close>

fun strstr :: "string \<Rightarrow> string \<Rightarrow> string option" where
  "strstr [] needle = (if needle = [] then Some [] else None)"
| "strstr (c # cs) needle =
     (if prefix needle (c # cs) then Some (c # cs) else strstr cs needle)"

text \<open>The macro \<open>DEBUG\<close>: \<open>g_message\<close> with the prefix "up: ".\<close>

definition DEBUG :: "string \<Rightarrow> arg list \<Rightarrow> world \<Rightarrow> world" where
  "DEBUG fmt args w = w\<lparr>g_log := g_log w @ [(''up: '' @ fmt, args)]\<rparr>"

definition g_timeout_add_seconds :: "nat \<Rightarrow> callback \<Rightarrow> world \<Rightarrow> nat \<times> world" where
  "g_timeout_add_seconds secs f w =
     (next_source w,
      w\<lparr>sources := sources w @ [\<lparr>sid = next_source w, cb = f, period = Some secs, due = now w + secs\<rparr>],
        next_source := Suc (next_source w)\<rparr>)"

definition g_idle_add :: "callback \<Rightarrow> world \<Rightarrow> nat \<times> world" where
  "g_idle_add f w =
     (next_source w,
      w\<lparr>sources := sources w @ [\<lparr>sid = next_source w, cb = f, period = None, due = now w\<rparr>],
        next_source := Suc (next_source w)\<rparr>)"

definition g_source_remove :: "nat \<Rightarrow> world \<Rightarrow> world" where
  "g_source_remove i w = w\<lparr>sources := filter (\<lambda>s. sid s \<noteq> i) (sources w)\<rparr>"

definition gtk_widget_destroy :: "widget \<Rightarrow> world \<Rightarrow> world" where
  "gtk_widget_destroy x w = w\<lparr>destroyed := destroyed w @ [x]\<rparr>"

definition lxpanel_notify :: "string \<Rightarrow> world \<Rightarrow> world" where
  "lxpanel_notify msg w = w\<lparr>notified := notified w @ [msg]\<rparr>"

definition config_group_set_int :: "string \<Rightarrow> int \<Rightarrow> world \<Rightarrow> world" where
  "config_group_set_int k v w = w\<lparr>up := (up w)\<lparr>settings := (settings (up w))(k \<mapsto> v)\<rparr>\<rparr>"

definition pk_client_refresh_cache_async :: "world \<Rightarrow> world" where
  "pk_client_refresh_cache_async w = w\<lparr>pending := pending w @ [Refresh_cache]\<rparr>"

definition pk_client_get_updates_async :: "world \<Rightarrow> world" where
  "pk_client_get_updates_async w = w\<lparr>pending := pending w @ [Get_updates]\<rparr>"

definition pk_package_get_arch :: "PkPackage \<Rightarrow> string" where
  "pk_package_get_arch p = pk_arch p"

definition pk_package_get_id :: "PkPackage \<Rightarrow> string" where
  "pk_package_get_id p = pk_name p @ '';'' @ pk_version p @ '';'' @ pk_arch p @ '';'' @ pk_data p"

definition pk_results_get_package_sack :: "PkPackage list \<Rightarrow> PkPackage list" where
  "pk_results_get_package_sack results = results"

definition pk_package_sack_filter :: "PkPackage list \<Rightarrow> (PkPackage \<Rightarrow> bool) \<Rightarrow> PkPackage list" where
  "pk_package_sack_filter sack f = filter f sack"

definition pk_package_sack_get_size :: "PkPackage list \<Rightarrow> nat" where
  "pk_package_sack_get_size sack = length sack"

definition pk_package_sack_get_ids :: "PkPackage list \<Rightarrow> string list" where
  "pk_package_sack_get_ids sack = map pk_package_get_id sack"

subsection \<open>Utility functions\<close>

definition net_available :: "world \<Rightarrow> bool \<times> world" where
  "net_available w =
     (case system Hostname_has_ip w of (r, w1) \<Rightarrow> if r = 0 then (True, w1) else (False, w1))"

definition clock_synced :: "world \<Rightarrow> bool \<times> world" where
  "clock_synced w =
     (case system Test_ntpd w of (r, w1) \<Rightarrow>
        if r = 0 then
          (case system Ntpq_peer w1 of (r2, w2) \<Rightarrow> if r2 = 0 then (True, w2) else (False, w2))
        else
          (case system Timedatectl_sync w1 of (r2, w2) \<Rightarrow> if r2 = 0 then (True, w2) else (False, w2)))"

subsection \<open>Icon and message box\<close>

definition update_icon :: "bool \<Rightarrow> world \<Rightarrow> world" where
  "update_icon hide w =
     (if n_updates (up w) \<noteq> 0 \<and> \<not> hide
      then w\<lparr>plugin_visible := True, plugin_sensitive := True\<rparr>
      else w\<lparr>plugin_visible := False, plugin_sensitive := False\<rparr>)"

definition message :: "string \<Rightarrow> int \<Rightarrow> world \<Rightarrow> world" where
  "message msg prog w =
     w\<lparr>shown := shown w @
        [\<lparr>modal_msg = msg,
          modal_ok_visible = (prog = - 3),
          modal_pb_visible = (prog > - 2),
          modal_pb = (if prog \<ge> 0 then Pb_fraction prog else if prog = - 1 then Pb_pulse else Pb_idle)\<rparr>]\<rparr>"

subsection \<open>Handlers for the PackageKit asynchronous check for updates\<close>

definition refresh_update_cache :: "world \<Rightarrow> world" where
  "refresh_update_cache w = pk_client_refresh_cache_async w"

definition check_for_updates :: "world \<Rightarrow> world" where
  "check_for_updates w =
     (case net_available w of (net, w1) \<Rightarrow>
        if \<not> net then DEBUG ''No network connection - update check failed'' [] w1
        else refresh_update_cache (DEBUG ''Checking for updates'' [] w1))"

definition refresh_cache_done :: "string option \<Rightarrow> world \<Rightarrow> world" where
  "refresh_cache_done res w =
     (case res of
        Some err \<Rightarrow> DEBUG ''Error updating cache - %s'' [ArgS err] w
      | None \<Rightarrow> pk_client_get_updates_async (DEBUG ''Cache updated - comparing versions'' [] w))"

definition filter_fn :: "PkPackage \<Rightarrow> bool" where
  "filter_fn package =
     (if strstr (pk_package_get_arch package) ''amd64'' \<noteq> None then False else True)"

definition check_updates_done :: "string + PkPackage list \<Rightarrow> world \<Rightarrow> world" where
  "check_updates_done res w =
     (case res of
        Inl err \<Rightarrow> DEBUG ''Error comparing versions - %s'' [ArgS err] w
      | Inr results \<Rightarrow>
          (case system Raspi_is_pi w of (r, w1) \<Rightarrow>
             let fsack = (if r \<noteq> 0
                          then pk_package_sack_filter (pk_results_get_package_sack results) filter_fn
                          else pk_results_get_package_sack results);
                 n = gint (int (pk_package_sack_get_size fsack));
                 w2 = w1\<lparr>up := (up w1)\<lparr>n_updates := n\<rparr>\<rparr>;
                 w3 = (if n > 0 then
                         (let w' = DEBUG ''Check complete - %d updates available'' [ArgD n] w2;
                              w'' = w'\<lparr>up := (up w')\<lparr>ids := Some (pk_package_sack_get_ids fsack)\<rparr>\<rparr>
                          in lxpanel_notify ''Updates are available\<newline>Click the update icon to install'' w'')
                       else
                         (let w' = DEBUG ''Check complete - no updates available'' [] w2
                          in w'\<lparr>up := (up w')\<lparr>ids := None\<rparr>\<rparr>))
             in update_icon False w3))"

subsection \<open>Launch installer process\<close>

definition launch_installer :: "world \<Rightarrow> world" where
  "launch_installer w =
     w\<lparr>spawned := spawned w @
        [\<lparr>argv = [''sudo'', ''lxplug-updater-install''],
          envp = (environ w)(''SUDO_ASKPASS'' \<mapsto> ''/usr/lib/lxplugins/pwdlpu.sh''),
          search_path = True\<rparr>]\<rparr>"

definition install_updates :: "world \<Rightarrow> world" where
  "install_updates w =
     (case net_available w of (net, w1) \<Rightarrow>
        if \<not> net then message ''No network connection - cannot install updates.'' (- 3) w1
        else
          (case clock_synced w1 of (synced, w2) \<Rightarrow>
             if \<not> synced then
               message ''Clock not synchronised - cannot install updates. Try again in a few minutes.'' (- 3) w2
             else launch_installer w2))"

subsection \<open>Dialog box showing pending updates\<close>

definition handle_close_update_dialog :: "world \<Rightarrow> world" where
  "handle_close_update_dialog w =
     (case update_dlg (up w) of
        Some d \<Rightarrow> (let w1 = gtk_widget_destroy d w in w1\<lparr>up := (up w1)\<lparr>update_dlg := None\<rparr>\<rparr>)
      | None \<Rightarrow> w)"

definition handle_close_and_install :: "world \<Rightarrow> world" where
  "handle_close_and_install w =
     (let w0 = (case update_dlg (up w) of
                  Some d \<Rightarrow> (let w1 = gtk_widget_destroy d w in w1\<lparr>up := (up w1)\<lparr>update_dlg := None\<rparr>\<rparr>)
                | None \<Rightarrow> w)
      in case net_available w0 of (net, w1) \<Rightarrow>
           if \<not> net then w1
           else (case clock_synced w1 of (synced, w2) \<Rightarrow>
                   if synced then launch_installer w2 else w2))"

definition delete_update_dialog :: "world \<Rightarrow> bool \<times> world" where
  "delete_update_dialog w = (True, handle_close_update_dialog w)"

subsection \<open>Timer handlers\<close>

definition init_check :: "world \<Rightarrow> bool \<times> world" where
  "init_check w =
     (let w0 = update_icon True w
      in case system Ps_piwiz w0 of (r, w1) \<Rightarrow>
           if r = 0 then (False, w1)
           else (case net_available w1 of (net, w2) \<Rightarrow>
                   if net then (False, check_for_updates w2)
                   else (False, snd (g_timeout_add_seconds 60 Net_check
                                       (DEBUG ''No network connection - polling...'' [] w2)))))"

definition net_check :: "world \<Rightarrow> bool \<times> world" where
  "net_check w =
     (case net_available w of (net, w1) \<Rightarrow>
        if net then (False, check_for_updates w1)
        else (True, DEBUG ''No network connection - polling...'' [] w1))"

definition periodic_check :: "world \<Rightarrow> bool \<times> world" where
  "periodic_check w = (True, check_for_updates w)"

subsection \<open>Plugin functions\<close>

definition updater_constructor :: "(string \<rightharpoonup> int) \<Rightarrow> world \<Rightarrow> world" where
  "updater_constructor cfg w =
     (let w1 = w\<lparr>up := \<lparr>settings = cfg, update_dlg = None, n_updates = 0, ids = None,
                        interval = 0, timer = 0\<rparr>,
                 plugin_visible := True, plugin_sensitive := True\<rparr>;
          w2 = snd (g_idle_add Init_check w1);
          w3 = w2\<lparr>up := (up w2)\<lparr>interval := (case settings (up w2) ''Interval'' of
                                                Some v \<Rightarrow> v | None \<Rightarrow> 24)\<rparr>\<rparr>
      in if interval (up w3) \<noteq> 0 then
           (case g_timeout_add_seconds (guint (interval (up w3) * SECS_PER_HOUR)) Periodic_check w3
            of (i, w4) \<Rightarrow> w4\<lparr>up := (up w4)\<lparr>timer := i\<rparr>\<rparr>)
         else w3\<lparr>up := (up w3)\<lparr>timer := 0\<rparr>\<rparr>)"

definition updater_control_msg :: "string \<Rightarrow> world \<Rightarrow> bool \<times> world" where
  "updater_control_msg cmd w =
     (if take 5 cmd = ''check'' then (True, check_for_updates (update_icon True w))
      else (False, w))"

definition updater_apply_configuration :: "world \<Rightarrow> world" where
  "updater_apply_configuration w =
     (let w1 = config_group_set_int ''Interval'' (interval (up w)) w;
          w2 = (if timer (up w1) \<noteq> 0 then g_source_remove (timer (up w1)) w1 else w1)
      in if interval (up w2) \<noteq> 0 then
           (case g_timeout_add_seconds (guint (interval (up w2) * SECS_PER_HOUR)) Periodic_check w2
            of (i, w3) \<Rightarrow> w3\<lparr>up := (up w3)\<lparr>timer := i\<rparr>\<rparr>)
         else w2\<lparr>up := (up w2)\<lparr>timer := 0\<rparr>\<rparr>)"

subsection \<open>The GLib main loop and the events that reach the plug-in\<close>

text \<open>
  A source is dispatched when it is ready: an idle source at once, a timeout source when
  its due time has come. The callback's result decides, as in GLib, whether the source
  stays (a timeout is then due one period later) or is removed. \<open>fired\<close> records the
  callbacks run.
\<close>

fun run_callback :: "callback \<Rightarrow> world \<Rightarrow> bool \<times> world" where
  "run_callback Init_check w = init_check w"
| "run_callback Net_check w = net_check w"
| "run_callback Periodic_check w = periodic_check w"

definition dispatch :: "nat \<Rightarrow> world \<Rightarrow> world" where
  "dispatch i w =
     (case find (\<lambda>s. sid s = i) (sources w) of
        None \<Rightarrow> w
      | Some s \<Rightarrow>
          if (case period s of None \<Rightarrow> True | Some p \<Rightarrow> due s \<le> now w) then
            (case run_callback (cb s) (w\<lparr>fired := fired w @ [cb s]\<rparr>) of (again, w1) \<Rightarrow>
               if again then
                 w1\<lparr>sources :=
                      map (\<lambda>t. if sid t = i
                                then t\<lparr>due := now w1 + (case period t of None \<Rightarrow> 0 | Some p \<Rightarrow> p)\<rparr>
                                else t)
                          (sources w1)\<rparr>
               else g_source_remove i w1)
          else w)"

text \<open>
  The events: time passing, the main loop dispatching a source, PackageKit finishing a
  request in flight, the two install buttons, closing the update dialog, a control
  message from the panel, and the configuration dialog storing a new interval through
  the pointer it was given and calling \<open>updater_apply_configuration\<close>.
\<close>

datatype event =
    Elapse nat
  | Dispatch nat
  | Refresh_finished "string option"
  | Updates_finished "string + PkPackage list"
  | Menu_install
  | Dialog_install
  | Dialog_close
  | Control string
  | Configure int

fun step :: "event \<Rightarrow> world \<Rightarrow> world" where
  "step (Elapse d) w = w\<lparr>now := now w + d\<rparr>"
| "step (Dispatch i) w = dispatch i w"
| "step (Refresh_finished res) w =
     (if Refresh_cache \<in> set (pending w)
      then refresh_cache_done res (w\<lparr>pending := remove1 Refresh_cache (pending w)\<rparr>)
      else w)"
| "step (Updates_finished res) w =
     (if Get_updates \<in> set (pending w)
      then check_updates_done res (w\<lparr>pending := remove1 Get_updates (pending w)\<rparr>)
      else w)"
| "step Menu_install w = install_updates w"
| "step Dialog_install w = handle_close_and_install w"
| "step Dialog_close w = handle_close_update_dialog w"
| "step (Control cmd) w = snd (updater_control_msg cmd w)"
| "step (Configure v) w = updater_apply_configuration (w\<lparr>up := (up w)\<lparr>interval := v\<rparr>\<rparr>)"

definition run :: "event list \<Rightarrow> world \<Rightarrow> world" where
  "run evs w = fold step evs w"

fun rearms :: "event \<Rightarrow> bool" where
  "rearms (Configure v) = (v \<noteq> 0)"
| "rearms e = False"

subsection \<open>Invariants of the event sources\<close>

text \<open>
  Source ids are positive and below the next id to be handed out, and the only source
  that runs \<open>periodic_check\<close> is the one whose id the plug-in keeps in \<open>timer\<close>.
\<close>

definition timer_inv :: "world \<Rightarrow> bool" where
  "timer_inv w \<longleftrightarrow>
     timer (up w) < next_source w \<and>
     (\<forall>s \<in> set (sources w).
        0 < sid s \<and> sid s < next_source w \<and> (cb s = Periodic_check \<longrightarrow> sid s = timer (up w)))"

definition periodic_sources :: "world \<Rightarrow> source list" where
  "periodic_sources w = filter (\<lambda>s. cb s = Periodic_check) (sources w)"

definition periodic_firings :: "world \<Rightarrow> nat" where
  "periodic_firings w = length (filter (\<lambda>c. c = Periodic_check) (fired w))"

subsection \<open>Concrete environments and worlds\<close>

text \<open>
  \<open>boot\<close> is the panel process before the plug-in is constructed. The environments
  answer every call alike: \<open>env_online\<close> is a networked, clock-synchronised machine that
  is not a Pi and runs no wizard; the others differ from it in one probe each.
  \<open>env_late\<close> is offline for the first four calls of \<open>system\<close> and online after.
\<close>

definition boot :: "(nat \<Rightarrow> command \<Rightarrow> int) \<Rightarrow> world" where
  "boot orc =
     \<lparr>up = \<lparr>settings = Map.empty, update_dlg = None, n_updates = 0, ids = None,
             interval = 0, timer = 0\<rparr>,
      sys_oracle = orc, sys_calls = 0, environ = Map.empty, g_log = [], shown = [],
      spawned = [], notified = [], pending = [], sources = [], next_source = 1, now = 0,
      plugin_visible = False, plugin_sensitive = False, destroyed = [], fired = []\<rparr>"

fun env_online :: "nat \<Rightarrow> command \<Rightarrow> int" where
  "env_online k Ps_piwiz = 1"
| "env_online k Raspi_is_pi = 1"
| "env_online k c = 0"

fun env_offline :: "nat \<Rightarrow> command \<Rightarrow> int" where
  "env_offline k Hostname_has_ip = 256"
| "env_offline k c = env_online k c"

fun env_unsynced :: "nat \<Rightarrow> command \<Rightarrow> int" where
  "env_unsynced k Ntpq_peer = 256"
| "env_unsynced k c = env_online k c"

fun env_pi :: "nat \<Rightarrow> command \<Rightarrow> int" where
  "env_pi k Raspi_is_pi = 0"
| "env_pi k c = env_online k c"

fun env_wizard :: "nat \<Rightarrow> command \<Rightarrow> int" where
  "env_wizard k Ps_piwiz = 0"
| "env_wizard k c = env_online k c"

definition env_late :: "nat \<Rightarrow> command \<Rightarrow> int" where
  "env_late k c = (if k < 4 then env_offline k c else env_online k c)"

definition foo_pkg :: PkPackage where
  "foo_pkg = \<lparr>pk_name = ''foo'', pk_version = ''1.2'', pk_arch = ''amd64'', pk_data = ''''\<rparr>"

definition bar_pkg :: PkPackage where
  "bar_pkg = \<lparr>pk_name = ''bar'', pk_version = ''3.0'', pk_arch = ''armhf'', pk_data = ''''\<rparr>"

text \<open>
  \<open>pending_world\<close>: a check has completed on the networked machine and found the update
  \<open>bar\<close>. \<open>busy_world\<close>: a check has been started there and its cache refresh is still
  in flight. \<open>dialog_world\<close>: the update dialog (widget 7) is open.
\<close>

definition pending_world :: world where
  "pending_world = check_updates_done (Inr [bar_pkg]) (boot env_online)"

definition busy_world :: world where
  "busy_world = check_for_updates (boot env_online)"

definition dialog_world :: "(nat \<Rightarrow> command \<Rightarrow> int) \<Rightarrow> world" where
  "dialog_world orc = (boot orc)\<lparr>up := (up (boot orc))\<lparr>update_dlg := Some 7\<rparr>\<rparr>"

text \<open>
  \<open>started\<close>: the plug-in has just been constructed with an empty configuration group
  (so the interval is the default of 24 hours). \<open>day_world\<close>: 100 seconds later on the
  networked machine. \<open>polling_world\<close>: the idle source has run \<open>init_check\<close> on the
  machine that is offline at first. \<open>polls i n\<close>: n times, a minute passes and the main
  loop dispatches source i.
\<close>

definition started :: "(nat \<Rightarrow> command \<Rightarrow> int) \<Rightarrow> world" where
  "started orc = updater_constructor Map.empty (boot orc)"

definition day_world :: world where
  "day_world = run [Elapse 100] (started env_online)"

definition polling_world :: world where
  "polling_world = run [Dispatch 1] (started env_late)"

fun polls :: "nat \<Rightarrow> nat \<Rightarrow> event list" where
  "polls i 0 = []"
| "polls i (Suc n) = Elapse 60 # Dispatch i # polls i n"


section \<open>Properties\<close>

subsection \<open>Probes and primitives\<close>

lemma net_available_eq:
  "net_available w =
     (sys_oracle w (sys_calls w) Hostname_has_ip = 0, w\<lparr>sys_calls := Suc (sys_calls w)\<rparr>)"
  by (simp add: net_available_def system_def)

lemma gint_small: "gint 0 = 0" "gint 1 = 1" "gint 2 = 2"
  by (simp_all add: gint_def)

lemma strstr_sublist: "strstr hay needle \<noteq> None \<longleftrightarrow> sublist needle hay"
  by (induction hay) (auto simp: sublist_Cons_right)

lemma filter_fn_iff: "filter_fn p \<longleftrightarrow> \<not> sublist ''amd64'' (pk_arch p)"
  using strstr_sublist [of "pk_arch p" "''amd64''"]
  by (simp add: filter_fn_def pk_package_get_arch_def)

subsection \<open>Starting a check\<close>

text \<open>
  Claim C4. A call of \<open>check_for_updates\<close> whose network probe fails issues no PackageKit
  request (neither a cache refresh nor an update query) and leaves the plug-in's
  structure, so \<open>n_updates\<close> and \<open>ids\<close>, as it was; it only logs the failure.
\<close>

theorem check_for_updates_no_network:
  assumes "\<not> fst (net_available w)"
  shows "pending (check_for_updates w) = pending w \<and>
         up (check_for_updates w) = up w \<and>
         n_updates (up (check_for_updates w)) = n_updates (up w) \<and>
         ids (up (check_for_updates w)) = ids (up w) \<and>
         g_log (check_for_updates w) =
           g_log w @ [(''up: No network connection - update check failed'', [])]"
  using assms by (simp add: check_for_updates_def net_available_eq DEBUG_def)

theorem check_for_updates_no_network_witness:
  "\<not> fst (net_available (boot env_offline)) \<and>
   pending (check_for_updates (boot env_offline)) = [] \<and>
   n_updates (up (check_for_updates (boot env_offline))) = 0 \<and>
   ids (up (check_for_updates (boot env_offline))) = None"
  using check_for_updates_no_network [of "boot env_offline"]
  by (simp add: net_available_eq boot_def)

text \<open>
  Claim C2 asks for a single-flight guard: a call while a run is in flight would be
  ignored and answered "already running". The plug-in keeps no record of a run in flight
  and \<open>check_for_updates\<close> tests the network only. On the networked machine, with one
  cache refresh in flight, a second call puts a second refresh in flight and logs the
  ordinary "Checking for updates".
\<close>

theorem single_flight_counterexample:
  "pending busy_world = [Refresh_cache] \<and>
   pending (check_for_updates busy_world) = [Refresh_cache, Refresh_cache] \<and>
   g_log (check_for_updates busy_world) = g_log busy_world @ [(''up: Checking for updates'', [])]"
  by (simp add: busy_world_def check_for_updates_def net_available_eq boot_def DEBUG_def
      refresh_update_cache_def pk_client_refresh_cache_async_def)

text \<open>
  Claim C2, amended. In every state, whatever is in flight, a call of
  \<open>check_for_updates\<close> whose network probe succeeds leaves the requests in flight in
  place, starts one more run (a cache refresh request behind them), leaves the plug-in's
  structure unchanged and logs "Checking for updates"; nothing signals a run already
  active.
\<close>

theorem check_for_updates_starts_run:
  assumes "fst (net_available w)"
  shows "pending (check_for_updates w) = pending w @ [Refresh_cache] \<and>
         up (check_for_updates w) = up w \<and>
         g_log (check_for_updates w) = g_log w @ [(''up: Checking for updates'', [])]"
  using assms
  by (simp add: check_for_updates_def net_available_eq DEBUG_def
      refresh_update_cache_def pk_client_refresh_cache_async_def)

theorem check_for_updates_starts_run_witness:
  "fst (net_available busy_world) \<and> pending busy_world = [Refresh_cache] \<and>
   pending (check_for_updates busy_world) = [Refresh_cache, Refresh_cache]"
  using check_for_updates_starts_run [of busy_world]
  by (simp add: busy_world_def check_for_updates_def net_available_eq boot_def DEBUG_def
      refresh_update_cache_def pk_client_refresh_cache_async_def)

subsection \<open>Completing a check\<close>

text \<open>
  Claim C8. When the cache refresh or the update query ends in an error, the callback
  logs the error and returns: the plug-in's structure (so \<open>n_updates\<close> and \<open>ids\<close>) is
  the one from before, and no further request is issued.
\<close>

theorem backend_error_keeps_state:
  "up (refresh_cache_done (Some err) w) = up w \<and>
   pending (refresh_cache_done (Some err) w) = pending w \<and>
   g_log (refresh_cache_done (Some err) w) =
     g_log w @ [(''up: Error updating cache - %s'', [ArgS err])] \<and>
   up (check_updates_done (Inl err) w) = up w \<and>
   pending (check_updates_done (Inl err) w) = pending w \<and>
   g_log (check_updates_done (Inl err) w) =
     g_log w @ [(''up: Error comparing versions - %s'', [ArgS err])]"
  by (simp add: refresh_cache_done_def check_updates_done_def DEBUG_def)

text \<open>
  Claim C5. When a check completes without error and the sack left after the platform
  filter is empty, the plug-in ends with \<open>n_updates = 0\<close> and \<open>ids\<close> NULL, whatever
  both were before.
\<close>

theorem check_updates_done_zero:
  assumes "(if fst (system Raspi_is_pi w) \<noteq> 0
            then pk_package_sack_filter (pk_results_get_package_sack results) filter_fn
            else pk_results_get_package_sack results) = []"
  shows "n_updates (up (check_updates_done (Inr results) w)) = 0 \<and>
         ids (up (check_updates_done (Inr results) w)) = None"
  using assms
  by (simp add: check_updates_done_def system_def Let_def gint_small
      pk_package_sack_get_size_def pk_results_get_package_sack_def update_icon_def DEBUG_def
      split: if_splits)

lemma pending_world_published:
  "n_updates (up pending_world) = 1"
  "ids (up pending_world) = Some [''bar;3.0;armhf;'']"
  "sys_oracle pending_world = env_online"
  "sys_calls pending_world = 1"
  "notified pending_world = [''Updates are available\<newline>Click the update icon to install'']"
  by (simp_all add: pending_world_def check_updates_done_def system_def boot_def Let_def
      pk_package_sack_filter_def filter_fn_def pk_package_get_arch_def bar_pkg_def
      pk_package_sack_get_size_def pk_results_get_package_sack_def pk_package_sack_get_ids_def
      pk_package_get_id_def
      gint_small DEBUG_def lxpanel_notify_def update_icon_def)

theorem check_updates_done_zero_witness:
  "(if fst (system Raspi_is_pi pending_world) \<noteq> 0
    then pk_package_sack_filter (pk_results_get_package_sack [foo_pkg]) filter_fn
    else pk_results_get_package_sack [foo_pkg]) = [] \<and>
   n_updates (up pending_world) = 1 \<and>
   ids (up pending_world) = Some [''bar;3.0;armhf;''] \<and>
   n_updates (up (check_updates_done (Inr [foo_pkg]) pending_world)) = 0 \<and>
   ids (up (check_updates_done (Inr [foo_pkg]) pending_world)) = None"
proof -
  have h: "(if fst (system Raspi_is_pi pending_world) \<noteq> 0
            then pk_package_sack_filter (pk_results_get_package_sack [foo_pkg]) filter_fn
            else pk_results_get_package_sack [foo_pkg]) = []"
    by (simp add: pending_world_published system_def pk_package_sack_filter_def filter_fn_def
        pk_package_get_arch_def foo_pkg_def pk_results_get_package_sack_def)
  from check_updates_done_zero [OF h] h show ?thesis
    by (simp add: pending_world_published)
qed

text \<open>
  Claim C3 says that a repeated check whose result remains has-updates emits no further
  notification. \<open>check_updates_done\<close> never looks at the previous \<open>n_updates\<close>: with one
  update already published, a check that finds the same update notifies again.
\<close>

theorem notify_counterexample:
  "n_updates (up pending_world) = 1 \<and>
   n_updates (up (check_updates_done (Inr [bar_pkg]) pending_world)) = 1 \<and>
   notified (check_updates_done (Inr [bar_pkg]) pending_world) =
     notified pending_world @ [''Updates are available\<newline>Click the update icon to install'']"
  by (simp add: pending_world_published check_updates_done_def system_def Let_def
      pk_package_sack_filter_def filter_fn_def pk_package_get_arch_def bar_pkg_def
      pk_package_sack_get_size_def pk_results_get_package_sack_def gint_small DEBUG_def
      lxpanel_notify_def update_icon_def)

text \<open>
  Claim C3, amended. Whatever the state before, a check that completes without error
  with \<open>n_updates > 0\<close> emits exactly one "updates available" notification: one on a
  transition from up-to-date to has-updates, and one again on every repeated check that
  remains has-updates. A check that completes with no updates emits none.
\<close>

theorem notify_on_every_nonempty_check:
  "(0 < n_updates (up (check_updates_done (Inr results) w)) \<longrightarrow>
      notified (check_updates_done (Inr results) w) =
        notified w @ [''Updates are available\<newline>Click the update icon to install'']) \<and>
   (n_updates (up (check_updates_done (Inr results) w)) \<le> 0 \<longrightarrow>
      notified (check_updates_done (Inr results) w) = notified w)"
  by (simp add: check_updates_done_def system_def Let_def DEBUG_def lxpanel_notify_def
      update_icon_def)

theorem notify_on_every_nonempty_check_witness:
  "0 < n_updates (up (check_updates_done (Inr [bar_pkg]) (boot env_online))) \<and>
   notified (check_updates_done (Inr [bar_pkg]) (boot env_online)) =
     [''Updates are available\<newline>Click the update icon to install''] \<and>
   0 < n_updates (up (check_updates_done (Inr [bar_pkg]) pending_world)) \<and>
   notified (check_updates_done (Inr [bar_pkg]) pending_world) =
     [''Updates are available\<newline>Click the update icon to install'',
      ''Updates are available\<newline>Click the update icon to install''] \<and>
   n_updates (up (check_updates_done (Inr [foo_pkg]) pending_world)) \<le> 0 \<and>
   notified (check_updates_done (Inr [foo_pkg]) pending_world) =
     [''Updates are available\<newline>Click the update icon to install'']"
proof -
  have n: "n_updates (up (check_updates_done (Inr [bar_pkg]) (boot env_online))) = 1"
    "n_updates (up (check_updates_done (Inr [bar_pkg]) pending_world)) = 1"
    "n_updates (up (check_updates_done (Inr [foo_pkg]) pending_world)) = 0"
    by (simp_all add: pending_world_published check_updates_done_def system_def boot_def
        Let_def pk_package_sack_filter_def filter_fn_def pk_package_get_arch_def bar_pkg_def
        foo_pkg_def pk_package_sack_get_size_def pk_results_get_package_sack_def gint_small
        DEBUG_def lxpanel_notify_def
        update_icon_def)
  show ?thesis
    using notify_on_every_nonempty_check [of "[bar_pkg]" "boot env_online"]
      notify_on_every_nonempty_check [of "[bar_pkg]" pending_world]
      notify_on_every_nonempty_check [of "[foo_pkg]" pending_world] n
    by (simp add: pending_world_published boot_def)
qed

lemma check_updates_done_published:
  "n_updates (up (check_updates_done (Inr results) w)) =
     gint (int (length (if sys_oracle w (sys_calls w) Raspi_is_pi \<noteq> 0
                        then filter filter_fn results else results)))"
  "ids (up (check_updates_done (Inr results) w)) =
     (if 0 < n_updates (up (check_updates_done (Inr results) w))
      then Some (map pk_package_get_id
                   (if sys_oracle w (sys_calls w) Raspi_is_pi \<noteq> 0
                    then filter filter_fn results else results))
      else None)"
  by (simp_all add: check_updates_done_def system_def Let_def DEBUG_def lxpanel_notify_def
      update_icon_def pk_package_sack_filter_def pk_package_sack_get_size_def pk_results_get_package_sack_def
      pk_package_sack_get_ids_def)

text \<open>
  Claim C6. A check that completes without error publishes, on a Pi (the probe
  \<open>raspi-config nonint is_pi\<close> answers 0), every package of the result, and elsewhere
  exactly the packages whose architecture string does not contain \<open>amd64\<close>, in the
  order of the result: \<open>n_updates\<close> is their number and \<open>ids\<close> their ids (NULL when
  there is none). For the packages foo (amd64) and bar (armhf) off a Pi only bar is
  left; PackageKit ids have four fields, so the example's ids end in an empty data field.
\<close>

theorem platform_filter:
  "(fst (system Raspi_is_pi w) = 0 \<longrightarrow>
      n_updates (up (check_updates_done (Inr results) w)) = gint (int (length results)) \<and>
      ids (up (check_updates_done (Inr results) w)) =
        (if 0 < n_updates (up (check_updates_done (Inr results) w))
         then Some (map pk_package_get_id results) else None)) \<and>
   (fst (system Raspi_is_pi w) \<noteq> 0 \<longrightarrow>
      n_updates (up (check_updates_done (Inr results) w)) =
        gint (int (length (filter (\<lambda>p. \<not> sublist ''amd64'' (pk_arch p)) results))) \<and>
      ids (up (check_updates_done (Inr results) w)) =
        (if 0 < n_updates (up (check_updates_done (Inr results) w))
         then Some (map pk_package_get_id
                      (filter (\<lambda>p. \<not> sublist ''amd64'' (pk_arch p)) results))
         else None))"
proof -
  have f: "filter filter_fn results = filter (\<lambda>p. \<not> sublist ''amd64'' (pk_arch p)) results"
    by (rule filter_cong) (simp_all add: filter_fn_iff)
  show ?thesis
    using check_updates_done_published [of results w] f
    by (simp add: system_def)
qed

theorem platform_filter_witness:
  "fst (system Raspi_is_pi (boot env_online)) \<noteq> 0 \<and>
   n_updates (up (check_updates_done (Inr [foo_pkg, bar_pkg]) (boot env_online))) = 1 \<and>
   ids (up (check_updates_done (Inr [foo_pkg, bar_pkg]) (boot env_online))) =
     Some [''bar;3.0;armhf;''] \<and>
   fst (system Raspi_is_pi (boot env_pi)) = 0 \<and>
   n_updates (up (check_updates_done (Inr [foo_pkg, bar_pkg]) (boot env_pi))) = 2 \<and>
   ids (up (check_updates_done (Inr [foo_pkg, bar_pkg]) (boot env_pi))) =
     Some [''foo;1.2;amd64;'', ''bar;3.0;armhf;'']"
proof -
  have a: "sublist ''amd64'' (pk_arch foo_pkg)" "\<not> sublist ''amd64'' (pk_arch bar_pkg)"
    by (simp_all add: foo_pkg_def bar_pkg_def sublist_code)
  have b: "fst (system Raspi_is_pi (boot env_online)) \<noteq> 0"
    "fst (system Raspi_is_pi (boot env_pi)) = 0"
    by (simp_all add: system_def boot_def)
  have c: "pk_package_get_id foo_pkg = ''foo;1.2;amd64;''"
    "pk_package_get_id bar_pkg = ''bar;3.0;armhf;''"
    by (simp_all add: pk_package_get_id_def foo_pkg_def bar_pkg_def)
  show ?thesis
    using platform_filter [of "boot env_online" "[foo_pkg, bar_pkg]"]
      platform_filter [of "boot env_pi" "[foo_pkg, bar_pkg]"] a b c
    by (simp add: gint_small)
qed

subsection \<open>Requesting the installation\<close>

text \<open>
  Claim C1. \<open>install_updates\<close>, from the menu: when the network check fails, the box
  "No network connection - cannot install updates." is shown and nothing is spawned;
  when it succeeds and the clock check fails, the box "Clock not synchronised - cannot
  install updates. Try again in a few minutes." is shown and nothing is spawned; when
  both succeed, no box is shown and exactly one subprocess is spawned, the installer
  under \<open>sudo\<close>.
\<close>

theorem install_updates_gate:
  "(\<not> fst (net_available w) \<longrightarrow>
      shown (install_updates w) = shown w @
        [\<lparr>modal_msg = ''No network connection - cannot install updates.'',
          modal_ok_visible = True, modal_pb_visible = False, modal_pb = Pb_idle\<rparr>] \<and>
      spawned (install_updates w) = spawned w) \<and>
   (fst (net_available w) \<and> \<not> fst (clock_synced (snd (net_available w))) \<longrightarrow>
      shown (install_updates w) = shown w @
        [\<lparr>modal_msg = ''Clock not synchronised - cannot install updates. Try again in a few minutes.'',
          modal_ok_visible = True, modal_pb_visible = False, modal_pb = Pb_idle\<rparr>] \<and>
      spawned (install_updates w) = spawned w) \<and>
   (fst (net_available w) \<and> fst (clock_synced (snd (net_available w))) \<longrightarrow>
      shown (install_updates w) = shown w \<and>
      spawned (install_updates w) = spawned w @
        [\<lparr>argv = [''sudo'', ''lxplug-updater-install''],
          envp = (environ w)(''SUDO_ASKPASS'' \<mapsto> ''/usr/lib/lxplugins/pwdlpu.sh''),
          search_path = True\<rparr>])"
  by (simp add: install_updates_def net_available_eq clock_synced_def system_def message_def
      launch_installer_def split: prod.splits)

theorem install_updates_gate_witness:
  "\<not> fst (net_available (boot env_offline)) \<and>
   map modal_msg (shown (install_updates (boot env_offline))) =
     [''No network connection - cannot install updates.''] \<and>
   spawned (install_updates (boot env_offline)) = [] \<and>
   fst (net_available (boot env_unsynced)) \<and>
   \<not> fst (clock_synced (snd (net_available (boot env_unsynced)))) \<and>
   map modal_msg (shown (install_updates (boot env_unsynced))) =
     [''Clock not synchronised - cannot install updates. Try again in a few minutes.''] \<and>
   spawned (install_updates (boot env_unsynced)) = [] \<and>
   fst (net_available (boot env_online)) \<and>
   fst (clock_synced (snd (net_available (boot env_online)))) \<and>
   shown (install_updates (boot env_online)) = [] \<and>
   map argv (spawned (install_updates (boot env_online))) = [[''sudo'', ''lxplug-updater-install'']]"
  using install_updates_gate [of "boot env_offline"] install_updates_gate [of "boot env_unsynced"]
    install_updates_gate [of "boot env_online"]
  by (simp add: net_available_eq clock_synced_def system_def boot_def)

text \<open>
  Claim C10. \<open>handle_close_and_install\<close>, the install button of the update dialog:
  when the network check fails, or it succeeds and the clock check fails, the handler
  closes the dialog and does nothing else: nothing is spawned, no box is shown, nothing is
  notified or logged. In the same state the menu's \<open>install_updates\<close> shows one box.
\<close>

theorem handle_close_and_install_silent:
  assumes "\<not> fst (net_available w) \<or> \<not> fst (clock_synced (snd (net_available w)))"
  shows "spawned (handle_close_and_install w) = spawned w \<and>
         shown (handle_close_and_install w) = shown w \<and>
         notified (handle_close_and_install w) = notified w \<and>
         g_log (handle_close_and_install w) = g_log w \<and>
         update_dlg (up (handle_close_and_install w)) = None \<and>
         length (shown (install_updates w)) = Suc (length (shown w))"
  using assms
  by (auto simp add: handle_close_and_install_def install_updates_def net_available_eq
      clock_synced_def system_def message_def gtk_widget_destroy_def Let_def
      split: option.splits prod.splits if_splits)

theorem handle_close_and_install_silent_witness:
  "\<not> fst (net_available (dialog_world env_offline)) \<and>
   spawned (handle_close_and_install (dialog_world env_offline)) = [] \<and>
   shown (handle_close_and_install (dialog_world env_offline)) = [] \<and>
   destroyed (handle_close_and_install (dialog_world env_offline)) = [7] \<and>
   length (shown (install_updates (dialog_world env_offline))) = 1 \<and>
   fst (net_available (dialog_world env_unsynced)) \<and>
   \<not> fst (clock_synced (snd (net_available (dialog_world env_unsynced)))) \<and>
   spawned (handle_close_and_install (dialog_world env_unsynced)) = [] \<and>
   shown (handle_close_and_install (dialog_world env_unsynced)) = [] \<and>
   length (shown (install_updates (dialog_world env_unsynced))) = 1"
  using handle_close_and_install_silent [of "dialog_world env_offline"]
    handle_close_and_install_silent [of "dialog_world env_unsynced"]
  by (simp add: net_available_eq clock_synced_def system_def boot_def dialog_world_def
      handle_close_and_install_def gtk_widget_destroy_def)

subsection \<open>What the callbacks leave alone\<close>

text \<open>
  None of the callbacks but \<open>init_check\<close> touches the event sources, and none
  touches the \<open>timer\<close> field or the record of callbacks run.
\<close>

lemma check_for_updates_frame [simp]:
  "sources (check_for_updates w) = sources w"
  "next_source (check_for_updates w) = next_source w"
  "up (check_for_updates w) = up w"
  "fired (check_for_updates w) = fired w"
  "now (check_for_updates w) = now w"
  by (simp_all add: check_for_updates_def net_available_eq DEBUG_def refresh_update_cache_def
      pk_client_refresh_cache_async_def)

lemma refresh_cache_done_frame [simp]:
  "sources (refresh_cache_done res w) = sources w"
  "next_source (refresh_cache_done res w) = next_source w"
  "timer (up (refresh_cache_done res w)) = timer (up w)"
  "fired (refresh_cache_done res w) = fired w"
  by (simp_all add: refresh_cache_done_def DEBUG_def pk_client_get_updates_async_def
      split: option.splits)

lemma check_updates_done_frame [simp]:
  "sources (check_updates_done res w) = sources w"
  "next_source (check_updates_done res w) = next_source w"
  "timer (up (check_updates_done res w)) = timer (up w)"
  "fired (check_updates_done res w) = fired w"
  by (simp_all add: check_updates_done_def DEBUG_def system_def Let_def lxpanel_notify_def
      update_icon_def split: sum.splits)

lemma install_updates_frame [simp]:
  "sources (install_updates w) = sources w"
  "next_source (install_updates w) = next_source w"
  "timer (up (install_updates w)) = timer (up w)"
  "fired (install_updates w) = fired w"
  by (simp_all add: install_updates_def net_available_eq clock_synced_def system_def
      message_def launch_installer_def split: prod.splits)

lemma handle_close_update_dialog_frame [simp]:
  "sources (handle_close_update_dialog w) = sources w"
  "next_source (handle_close_update_dialog w) = next_source w"
  "timer (up (handle_close_update_dialog w)) = timer (up w)"
  "fired (handle_close_update_dialog w) = fired w"
  by (simp_all add: handle_close_update_dialog_def gtk_widget_destroy_def Let_def
      split: option.splits)

lemma handle_close_and_install_frame [simp]:
  "sources (handle_close_and_install w) = sources w"
  "next_source (handle_close_and_install w) = next_source w"
  "timer (up (handle_close_and_install w)) = timer (up w)"
  "fired (handle_close_and_install w) = fired w"
  by (simp_all add: handle_close_and_install_def gtk_widget_destroy_def Let_def
      net_available_eq clock_synced_def system_def launch_installer_def
      split: option.splits prod.splits)

lemma updater_control_msg_frame [simp]:
  "sources (snd (updater_control_msg cmd w)) = sources w"
  "next_source (snd (updater_control_msg cmd w)) = next_source w"
  "timer (up (snd (updater_control_msg cmd w))) = timer (up w)"
  "fired (snd (updater_control_msg cmd w)) = fired w"
  by (simp_all add: updater_control_msg_def update_icon_def)

lemma init_check_frame [simp]:
  "up (snd (init_check w)) = up w"
  "fired (snd (init_check w)) = fired w"
  "now (snd (init_check w)) = now w"
  "fst (init_check w) = False"
  by (simp_all add: init_check_def Let_def system_def net_available_eq update_icon_def
      g_timeout_add_seconds_def DEBUG_def)

lemma init_check_sources:
  "(sources (snd (init_check w)) = sources w \<and> next_source (snd (init_check w)) = next_source w) \<or>
   (sources (snd (init_check w)) =
      sources w @ [\<lparr>sid = next_source w, cb = Net_check, period = Some 60, due = now w + 60\<rparr>] \<and>
    next_source (snd (init_check w)) = Suc (next_source w))"
  by (simp add: init_check_def Let_def system_def net_available_eq update_icon_def
      g_timeout_add_seconds_def DEBUG_def)

lemma net_check_frame [simp]:
  "sources (snd (net_check w)) = sources w"
  "next_source (snd (net_check w)) = next_source w"
  "up (snd (net_check w)) = up w"
  "fired (snd (net_check w)) = fired w"
  "now (snd (net_check w)) = now w"
  by (simp_all add: net_check_def net_available_eq DEBUG_def)

lemma periodic_check_frame [simp]:
  "sources (snd (periodic_check w)) = sources w"
  "next_source (snd (periodic_check w)) = next_source w"
  "up (snd (periodic_check w)) = up w"
  "fired (snd (periodic_check w)) = fired w"
  "now (snd (periodic_check w)) = now w"
  by (simp_all add: periodic_check_def)

lemma run_callback_frame [simp]:
  "up (snd (run_callback c w)) = up w"
  "fired (snd (run_callback c w)) = fired w"
  "now (snd (run_callback c w)) = now w"
  by (cases c; simp)+

lemma run_callback_periodic_sources [simp]:
  "periodic_sources (snd (run_callback c w)) = periodic_sources w"
  using init_check_sources [of w]
  by (cases c) (auto simp: periodic_sources_def)

lemma run_callback_sources:
  "(sources (snd (run_callback c w)) = sources w \<and> next_source (snd (run_callback c w)) = next_source w) \<or>
   (sources (snd (run_callback c w)) =
      sources w @ [\<lparr>sid = next_source w, cb = Net_check, period = Some 60, due = now w + 60\<rparr>] \<and>
    next_source (snd (run_callback c w)) = Suc (next_source w))"
  using init_check_sources [of w]
  by (cases c) auto

lemma filter_rearm:
  "filter (\<lambda>s. cb s = c) (map (\<lambda>t. if sid t = i then t\<lparr>due := f t\<rparr> else t) xs) =
   map (\<lambda>t. if sid t = i then t\<lparr>due := f t\<rparr> else t) (filter (\<lambda>s. cb s = c) xs)"
  by (induction xs) auto

lemma dispatch_unarmed:
  assumes "periodic_sources w = []"
  shows "periodic_sources (dispatch i w) = []"
    and "periodic_firings (dispatch i w) = periodic_firings w"
    and "up (dispatch i w) = up w"
proof -
  show "up (dispatch i w) = up w"
    by (simp add: dispatch_def g_source_remove_def case_prod_beta split: option.splits)
  show "periodic_sources (dispatch i w) = []"
  proof (cases "find (\<lambda>s. sid s = i) (sources w)")
    case None
    then show ?thesis using assms by (simp add: dispatch_def)
  next
    case (Some s)
    have "periodic_sources (w\<lparr>fired := fired w @ [cb s]\<rparr>) = periodic_sources w"
      by (simp add: periodic_sources_def)
    then have "periodic_sources (snd (run_callback (cb s) (w\<lparr>fired := fired w @ [cb s]\<rparr>))) = []"
      using assms by simp
    then show ?thesis using Some assms
      by (auto simp add: dispatch_def g_source_remove_def periodic_sources_def filter_rearm
          case_prod_beta filter_empty_conv)
  qed
  show "periodic_firings (dispatch i w) = periodic_firings w"
  proof (cases "find (\<lambda>s. sid s = i) (sources w)")
    case None
    then show ?thesis by (simp add: dispatch_def)
  next
    case (Some s)
    then have "s \<in> set (sources w)"
      by (auto simp: find_Some_iff)
    with assms have "cb s \<noteq> Periodic_check"
      by (auto simp: periodic_sources_def filter_empty_conv)
    moreover have "fired (snd (run_callback (cb s) (w\<lparr>fired := fired w @ [cb s]\<rparr>))) = fired w @ [cb s]"
      by simp
    ultimately show ?thesis using Some
      by (simp add: dispatch_def g_source_remove_def periodic_firings_def case_prod_beta)
  qed
qed

subsection \<open>Reconfiguring the periodic timer\<close>

lemma apply_configuration_eq:
  "sources (updater_apply_configuration w) =
     (if timer (up w) \<noteq> 0 then filter (\<lambda>s. sid s \<noteq> timer (up w)) (sources w) else sources w) @
     (if interval (up w) \<noteq> 0
      then [\<lparr>sid = next_source w, cb = Periodic_check,
             period = Some (guint (interval (up w) * SECS_PER_HOUR)),
             due = now w + guint (interval (up w) * SECS_PER_HOUR)\<rparr>]
      else [])"
  "timer (up (updater_apply_configuration w)) = (if interval (up w) \<noteq> 0 then next_source w else 0)"
  "next_source (updater_apply_configuration w) =
     (if interval (up w) \<noteq> 0 then Suc (next_source w) else next_source w)"
  "fired (updater_apply_configuration w) = fired w"
  "interval (up (updater_apply_configuration w)) = interval (up w)"
  "settings (up (updater_apply_configuration w)) = (settings (up w))(''Interval'' \<mapsto> interval (up w))"
  by (simp_all add: updater_apply_configuration_def Let_def config_group_set_int_def
      g_source_remove_def g_timeout_add_seconds_def)

lemma guint_hours:
  assumes "1 \<le> h" "h \<le> 1193046"
  shows "guint (h * SECS_PER_HOUR) = nat h * 3600"
proof -
  have "0 \<le> h * 3600" "h * 3600 < 2 ^ 32"
    using assms by simp_all
  then have "(h * 3600) mod 2 ^ 32 = h * 3600"
    by (simp only: mod_pos_pos_trivial)
  then show ?thesis
    using assms by (simp add: guint_def SECS_PER_HOUR_def nat_mult_distrib)
qed

lemma step_unarmed:
  assumes "timer (up w) = 0" "periodic_sources w = []" "\<not> rearms e"
  shows "timer (up (step e w)) = 0 \<and> periodic_sources (step e w) = [] \<and>
         periodic_firings (step e w) = periodic_firings w"
proof (cases e)
  case (Dispatch i)
  then show ?thesis using assms dispatch_unarmed [of w i] by simp
next
  case (Configure v)
  with assms have "v = 0" by simp
  then show ?thesis using Configure assms
    by (simp add: periodic_sources_def periodic_firings_def apply_configuration_eq)
qed (use assms in \<open>simp_all add: periodic_sources_def periodic_firings_def\<close>)

lemma run_unarmed:
  assumes "timer (up w) = 0" "periodic_sources w = []" "\<forall>e \<in> set evs. \<not> rearms e"
  shows "timer (up (run evs w)) = 0 \<and> periodic_sources (run evs w) = [] \<and>
         periodic_firings (run evs w) = periodic_firings w"
  using assms
proof (induction evs arbitrary: w)
  case Nil
  then show ?case by (simp add: run_def)
next
  case (Cons e evs)
  have s: "timer (up (step e w)) = 0 \<and> periodic_sources (step e w) = [] \<and>
           periodic_firings (step e w) = periodic_firings w"
    using Cons.prems by (intro step_unarmed) simp_all
  have "run (e # evs) w = run evs (step e w)"
    by (simp add: run_def)
  then show ?case
    using Cons.IH [of "step e w"] s Cons.prems by simp
qed

lemma timer_inv_periodic:
  assumes "timer_inv w"
  shows "filter (\<lambda>s. cb s = Periodic_check)
           (if timer (up w) \<noteq> 0 then filter (\<lambda>s. sid s \<noteq> timer (up w)) (sources w)
            else sources w) = []"
  using assms by (auto simp: timer_inv_def filter_empty_conv)

text \<open>
  The invariant holds once the plug-in is constructed and every event keeps it.
\<close>

lemma timer_inv_constructor: "timer_inv (updater_constructor cfg (boot orc))"
  by (simp add: timer_inv_def updater_constructor_def boot_def Let_def g_idle_add_def
      g_timeout_add_seconds_def split: option.splits)

lemma timer_inv_callback:
  assumes "timer_inv w"
  shows "timer_inv (snd (run_callback c w))"
  using assms run_callback_sources [of c w]
  by (fastforce simp: timer_inv_def less_Suc_eq)

lemma timer_inv_dispatch:
  assumes "timer_inv w"
  shows "timer_inv (dispatch i w)"
proof (cases "find (\<lambda>s. sid s = i) (sources w)")
  case None
  then show ?thesis using assms by (simp add: dispatch_def)
next
  case (Some s)
  have "timer_inv (w\<lparr>fired := fired w @ [cb s]\<rparr>)"
    using assms by (simp add: timer_inv_def)
  then have "timer_inv (snd (run_callback (cb s) (w\<lparr>fired := fired w @ [cb s]\<rparr>)))"
    by (rule timer_inv_callback)
  then show ?thesis using Some assms
    by (auto simp add: dispatch_def g_source_remove_def case_prod_beta timer_inv_def)
qed

lemma timer_inv_apply_configuration:
  assumes "timer_inv w"
  shows "timer_inv (updater_apply_configuration w)"
  using assms
  by (auto simp: timer_inv_def apply_configuration_eq)

lemma timer_inv_step:
  assumes "timer_inv w"
  shows "timer_inv (step e w)"
proof (cases e)
  case (Dispatch i)
  then show ?thesis using assms by (simp add: timer_inv_dispatch)
next
  case (Configure v)
  have "timer_inv (w\<lparr>up := (up w)\<lparr>interval := v\<rparr>\<rparr>)"
    using assms by (simp add: timer_inv_def)
  then show ?thesis using Configure by (simp add: timer_inv_apply_configuration)
qed (use assms in \<open>simp_all add: timer_inv_def\<close>)

lemma timer_inv_run:
  assumes "timer_inv w"
  shows "timer_inv (run evs w)"
  using assms
  by (induction evs arbitrary: w) (simp_all add: run_def timer_inv_step)

lemma timer_inv_reachable: "timer_inv (run evs (updater_constructor cfg (boot orc)))"
  by (rule timer_inv_run) (rule timer_inv_constructor)

lemma day_world_eq:
  "sources day_world =
     [\<lparr>sid = 1, cb = Init_check, period = None, due = 0\<rparr>,
      \<lparr>sid = 2, cb = Periodic_check, period = Some 86400, due = 86400\<rparr>]"
  "timer (up day_world) = 2"
  "interval (up day_world) = 24"
  "next_source day_world = 3"
  "now day_world = 100"
  "fired day_world = []"
  by (simp_all add: day_world_def started_def run_def updater_constructor_def boot_def Let_def
      g_idle_add_def g_timeout_add_seconds_def guint_def SECS_PER_HOUR_def)

lemma apply_configuration_inv:
  assumes "timer_inv w"
  shows "timer (up w) \<noteq> 0 \<Longrightarrow>
           \<forall>s \<in> set (sources (updater_apply_configuration w)). sid s \<noteq> timer (up w)"
    and "1 \<le> interval (up w) \<Longrightarrow> interval (up w) \<le> 1193046 \<Longrightarrow>
           timer (up (updater_apply_configuration w)) \<noteq> 0 \<and>
           periodic_sources (updater_apply_configuration w) =
             [\<lparr>sid = timer (up (updater_apply_configuration w)), cb = Periodic_check,
               period = Some (nat (interval (up w)) * 3600),
               due = now w + nat (interval (up w)) * 3600\<rparr>]"
    and "interval (up w) = 0 \<Longrightarrow>
           timer (up (updater_apply_configuration w)) = 0 \<and>
           periodic_sources (updater_apply_configuration w) = []"
proof -
  show "\<forall>s \<in> set (sources (updater_apply_configuration w)). sid s \<noteq> timer (up w)"
    if "timer (up w) \<noteq> 0"
    using that assms by (auto simp: apply_configuration_eq timer_inv_def)
  show "timer (up (updater_apply_configuration w)) \<noteq> 0 \<and>
        periodic_sources (updater_apply_configuration w) =
          [\<lparr>sid = timer (up (updater_apply_configuration w)), cb = Periodic_check,
            period = Some (nat (interval (up w)) * 3600),
            due = now w + nat (interval (up w)) * 3600\<rparr>]"
    if h: "1 \<le> interval (up w)" "interval (up w) \<le> 1193046"
  proof -
    from assms have "0 < next_source w"
      by (simp add: timer_inv_def)
    moreover from h have "guint (interval (up w) * SECS_PER_HOUR) = nat (interval (up w)) * 3600"
      by (rule guint_hours)
    ultimately show ?thesis
      using h timer_inv_periodic [OF assms]
      by (auto simp: apply_configuration_eq periodic_sources_def)
  qed
  show "timer (up (updater_apply_configuration w)) = 0 \<and>
        periodic_sources (updater_apply_configuration w) = []"
    if "interval (up w) = 0"
    using that timer_inv_periodic [OF assms]
    by (auto simp: apply_configuration_eq periodic_sources_def)
qed

lemma day_world_reachable:
  "day_world = run [Elapse 100] (updater_constructor Map.empty (boot env_online))"
  by (simp add: day_world_def started_def)

text \<open>
  Inside the range of \<open>guint\<close> the timer is re-armed from the moment of the call. In
  every state reached from startup, when the configuration dialog stores an interval
  \<open>v\<close> and calls \<open>updater_apply_configuration\<close>: an armed periodic timer is cancelled
  (no source with its id is left); for \<open>v\<close> from 1 to 1193046 exactly one periodic source
  is armed afterwards, first due \<open>v\<close> hours after the call, whatever the old timer's due
  time was; for \<open>v = 0\<close> no periodic source is armed, and through every later sequence
  of events without a reconfiguration to a nonzero interval none is armed and
  \<open>periodic_check\<close> does not run.
\<close>

lemma configure_rearms:
  assumes "w = run evs (updater_constructor cfg (boot orc))"
  shows "(timer (up w) \<noteq> 0 \<longrightarrow>
            (\<forall>s \<in> set (sources (step (Configure v) w)). sid s \<noteq> timer (up w))) \<and>
         (1 \<le> v \<and> v \<le> 1193046 \<longrightarrow>
            timer (up (step (Configure v) w)) \<noteq> 0 \<and>
            periodic_sources (step (Configure v) w) =
              [\<lparr>sid = timer (up (step (Configure v) w)), cb = Periodic_check,
                period = Some (nat v * 3600), due = now w + nat v * 3600\<rparr>]) \<and>
         (v = 0 \<longrightarrow>
            timer (up (step (Configure v) w)) = 0 \<and>
            periodic_sources (step (Configure v) w) = [] \<and>
            (\<forall>later. (\<forall>e \<in> set later. \<not> rearms e) \<longrightarrow>
               periodic_sources (run later (step (Configure v) w)) = [] \<and>
               periodic_firings (run later (step (Configure v) w)) = periodic_firings w))"
proof -
  let ?w = "w\<lparr>up := (up w)\<lparr>interval := v\<rparr>\<rparr>"
  have "timer_inv w"
    unfolding assms by (rule timer_inv_reachable)
  then have inv: "timer_inv ?w"
    by (simp add: timer_inv_def)
  have s: "step (Configure v) w = updater_apply_configuration ?w"
    by simp
  have same: "timer (up ?w) = timer (up w)" "interval (up ?w) = v" "now ?w = now w"
    "periodic_firings (updater_apply_configuration ?w) = periodic_firings w"
    by (simp_all add: periodic_firings_def apply_configuration_eq)
  note a = apply_configuration_inv [OF inv, unfolded same]
  show ?thesis
  proof (intro conjI impI)
    assume "timer (up w) \<noteq> 0"
    then show "\<forall>s \<in> set (sources (step (Configure v) w)). sid s \<noteq> timer (up w)"
      unfolding s by (rule a(1))
  next
    assume "1 \<le> v \<and> v \<le> 1193046"
    then have r: "timer (up (updater_apply_configuration ?w)) \<noteq> 0 \<and>
           periodic_sources (updater_apply_configuration ?w) =
             [\<lparr>sid = timer (up (updater_apply_configuration ?w)), cb = Periodic_check,
               period = Some (nat v * 3600), due = now w + nat v * 3600\<rparr>]"
      by (intro a(2)) simp_all
    from r show "timer (up (step (Configure v) w)) \<noteq> 0"
      unfolding s by simp
    from r show "periodic_sources (step (Configure v) w) =
              [\<lparr>sid = timer (up (step (Configure v) w)), cb = Periodic_check,
                period = Some (nat v * 3600), due = now w + nat v * 3600\<rparr>]"
      unfolding s by simp
  next
    assume z: "v = 0"
    then have r: "timer (up (updater_apply_configuration ?w)) = 0 \<and>
        periodic_sources (updater_apply_configuration ?w) = []"
      by (intro a(3))
    from r show "timer (up (step (Configure v) w)) = 0"
      and "periodic_sources (step (Configure v) w) = []"
      unfolding s by simp_all
    show "\<forall>later. (\<forall>e \<in> set later. \<not> rearms e) \<longrightarrow>
               periodic_sources (run later (step (Configure v) w)) = [] \<and>
               periodic_firings (run later (step (Configure v) w)) = periodic_firings w"
      unfolding s using run_unarmed [of "updater_apply_configuration ?w"] r same(4) by simp
  qed
qed

lemma configure_rearms_example:
  "timer (up day_world) = 2 \<and>
   now day_world = 100 \<and>
   sources day_world =
     [\<lparr>sid = 1, cb = Init_check, period = None, due = 0\<rparr>,
      \<lparr>sid = 2, cb = Periodic_check, period = Some 86400, due = 86400\<rparr>] \<and>
   sources (step (Configure 5) day_world) =
     [\<lparr>sid = 1, cb = Init_check, period = None, due = 0\<rparr>,
      \<lparr>sid = 3, cb = Periodic_check, period = Some 18000, due = 18100\<rparr>] \<and>
   timer (up (step (Configure 5) day_world)) = 3 \<and>
   periodic_sources (step (Configure 0) day_world) = [] \<and>
   timer (up (step (Configure 0) day_world)) = 0 \<and>
   periodic_sources (run [Elapse 86400, Dispatch 2, Dispatch 1, Control ''check'', Configure 0]
                       (step (Configure 0) day_world)) = [] \<and>
   periodic_firings (run [Elapse 86400, Dispatch 2, Dispatch 1, Control ''check'', Configure 0]
                       (step (Configure 0) day_world)) = 0"
proof -
  let ?evs = "[Elapse 86400, Dispatch 2, Dispatch 1, Control ''check'', Configure 0]"
  have q: "\<forall>e \<in> set ?evs. \<not> rearms e"
    by simp
  have s5: "sources (step (Configure 5) day_world) =
     [\<lparr>sid = 1, cb = Init_check, period = None, due = 0\<rparr>,
      \<lparr>sid = 3, cb = Periodic_check, period = Some 18000, due = 18100\<rparr>]"
    by (simp add: apply_configuration_eq day_world_eq guint_def SECS_PER_HOUR_def)
  have f0: "periodic_firings day_world = 0"
    by (simp add: periodic_firings_def day_world_eq)
  from configure_rearms [OF day_world_reachable, of 5]
    configure_rearms [OF day_world_reachable, of 0] q s5 f0
  show ?thesis
    by (simp add: day_world_eq apply_configuration_eq)
qed

text \<open>
  Claim C7: after a configuration update the next periodic firing is \<open>interval\<close> hours
  from the moment of reconfiguration. The field is documented as the number of hours
  between periodic checks, and the code forms \<open>interval * SECS_PER_HOUR\<close> for the
  delay, but hands it unguarded to the \<open>guint\<close> parameter of
  \<open>g_timeout_add_seconds\<close>, which keeps it modulo 2 to the 32. With an interval of
  1193047 hours, stored by the dialog 100 seconds after startup, the timer is due 1904
  seconds later (at 2004), not 1193047 hours later. The same value read from the
  configuration file arms 1904 seconds in the constructor and again in
  \<open>updater_apply_configuration\<close>. (With a 32-bit \<open>long\<close> the product itself overflows
  already from 596524 hours.)
\<close>

theorem configure_overflow:
  "now day_world = 100 \<and>
   interval (up (step (Configure 1193047) day_world)) = 1193047 \<and>
   periodic_sources (step (Configure 1193047) day_world) =
     [\<lparr>sid = 3, cb = Periodic_check, period = Some 1904, due = 2004\<rparr>] \<and>
   (2004 :: nat) \<noteq> 100 + 1193047 * 3600 \<and>
   interval (up (updater_constructor [''Interval'' \<mapsto> 1193047] (boot env_online))) = 1193047 \<and>
   periodic_sources (updater_constructor [''Interval'' \<mapsto> 1193047] (boot env_online)) =
     [\<lparr>sid = 2, cb = Periodic_check, period = Some 1904, due = 1904\<rparr>] \<and>
   periodic_sources
     (updater_apply_configuration
        (updater_constructor [''Interval'' \<mapsto> 1193047] (boot env_online))) =
     [\<lparr>sid = 3, cb = Periodic_check, period = Some 1904, due = 1904\<rparr>]"
  by (simp add: periodic_sources_def apply_configuration_eq day_world_eq guint_def
      SECS_PER_HOUR_def updater_constructor_def boot_def Let_def g_idle_add_def
      g_timeout_add_seconds_def)

subsection \<open>Startup\<close>

lemma find_rearm:
  "find (\<lambda>s. sid s = i) (map (\<lambda>t. if sid t = i then t\<lparr>due := f t\<rparr> else t) xs) =
   map_option (\<lambda>t. t\<lparr>due := f t\<rparr>) (find (\<lambda>s. sid s = i) xs)"
  by (induction xs) auto

lemma find_removed: "find (\<lambda>s. sid s = i) (filter (\<lambda>s. sid s \<noteq> i) xs) = None"
  by (induction xs) auto

lemma poll_offline:
  assumes "find (\<lambda>s. sid s = i) (sources w) =
             Some \<lparr>sid = i, cb = Net_check, period = Some 60, due = now w + 60\<rparr>"
    and "sys_oracle w (sys_calls w) Hostname_has_ip \<noteq> 0"
  shows "find (\<lambda>s. sid s = i) (sources (run [Elapse 60, Dispatch i] w)) =
           Some \<lparr>sid = i, cb = Net_check, period = Some 60, due = now w + 60 + 60\<rparr>"
    and "pending (run [Elapse 60, Dispatch i] w) = pending w"
    and "fired (run [Elapse 60, Dispatch i] w) = fired w @ [Net_check]"
    and "now (run [Elapse 60, Dispatch i] w) = now w + 60"
    and "sys_calls (run [Elapse 60, Dispatch i] w) = Suc (sys_calls w)"
    and "sys_oracle (run [Elapse 60, Dispatch i] w) = sys_oracle w"
  using assms
  by (simp_all add: run_def dispatch_def net_check_def net_available_eq DEBUG_def find_rearm)

lemma poll_online:
  assumes "find (\<lambda>s. sid s = i) (sources w) =
             Some \<lparr>sid = i, cb = Net_check, period = Some 60, due = now w + 60\<rparr>"
    and "sys_oracle w (sys_calls w) Hostname_has_ip = 0"
    and "sys_oracle w (Suc (sys_calls w)) Hostname_has_ip = 0"
  shows "find (\<lambda>s. sid s = i) (sources (run [Elapse 60, Dispatch i] w)) = None"
    and "pending (run [Elapse 60, Dispatch i] w) = pending w @ [Refresh_cache]"
    and "fired (run [Elapse 60, Dispatch i] w) = fired w @ [Net_check]"
    and "now (run [Elapse 60, Dispatch i] w) = now w + 60"
  using assms
  by (simp_all add: run_def dispatch_def net_check_def net_available_eq DEBUG_def find_removed
      check_for_updates_def refresh_update_cache_def pk_client_refresh_cache_async_def
      g_source_remove_def)

lemma run_append: "run (xs @ ys) w = run ys (run xs w)"
  by (simp add: run_def)

lemma run_polls_Suc: "run (polls i (Suc n)) w = run (polls i n) (run [Elapse 60, Dispatch i] w)"
  by (simp add: run_def)

lemma polls_offline:
  assumes "find (\<lambda>s. sid s = i) (sources w) =
             Some \<lparr>sid = i, cb = Net_check, period = Some 60, due = now w + 60\<rparr>"
    and "\<forall>j<n. sys_oracle w (sys_calls w + j) Hostname_has_ip \<noteq> 0"
  shows "find (\<lambda>s. sid s = i) (sources (run (polls i n) w)) =
           Some \<lparr>sid = i, cb = Net_check, period = Some 60, due = now w + 60 * n + 60\<rparr> \<and>
         pending (run (polls i n) w) = pending w \<and>
         fired (run (polls i n) w) = fired w @ replicate n Net_check \<and>
         now (run (polls i n) w) = now w + 60 * n \<and>
         sys_calls (run (polls i n) w) = sys_calls w + n \<and>
         sys_oracle (run (polls i n) w) = sys_oracle w"
  using assms
proof (induction n arbitrary: w)
  case 0
  then show ?case by (simp add: run_def)
next
  case (Suc n)
  let ?w = "run [Elapse 60, Dispatch i] w"
  have p0: "sys_oracle w (sys_calls w) Hostname_has_ip \<noteq> 0"
    using Suc.prems(2) by (metis add.right_neutral zero_less_Suc)
  note one = poll_offline [OF Suc.prems(1) p0]
  have f: "find (\<lambda>s. sid s = i) (sources ?w) =
             Some \<lparr>sid = i, cb = Net_check, period = Some 60, due = now ?w + 60\<rparr>"
    using one by simp
  have q: "\<forall>j<n. sys_oracle ?w (sys_calls ?w + j) Hostname_has_ip \<noteq> 0"
  proof (intro allI impI)
    fix j assume "j < n"
    then have "sys_oracle w (sys_calls w + Suc j) Hostname_has_ip \<noteq> 0"
      using Suc.prems(2) by (meson Suc_less_eq)
    then show "sys_oracle ?w (sys_calls ?w + j) Hostname_has_ip \<noteq> 0"
      using one by simp
  qed
  show ?case
    using Suc.IH [OF f q] one
    by (simp add: run_polls_Suc replicate_append_same [symmetric] del: polls.simps)
qed

lemma polls_snoc: "polls i (Suc n) = polls i n @ [Elapse 60, Dispatch i]"
  by (induction n) simp_all

lemma constructor_idle:
  "\<lparr>sid = next_source w, cb = Init_check, period = None, due = now w\<rparr>
     \<in> set (sources (updater_constructor cfg w))"
  by (simp add: updater_constructor_def Let_def g_idle_add_def g_timeout_add_seconds_def)

lemma init_check_cases:
  "sys_oracle w (sys_calls w) Ps_piwiz = 0 \<Longrightarrow>
     pending (snd (init_check w)) = pending w \<and> sources (snd (init_check w)) = sources w"
  "sys_oracle w (sys_calls w) Ps_piwiz \<noteq> 0 \<Longrightarrow>
   sys_oracle w (sys_calls w + 1) Hostname_has_ip = 0 \<Longrightarrow>
   sys_oracle w (sys_calls w + 2) Hostname_has_ip = 0 \<Longrightarrow>
     pending (snd (init_check w)) = pending w @ [Refresh_cache] \<and>
     sources (snd (init_check w)) = sources w"
  "sys_oracle w (sys_calls w) Ps_piwiz \<noteq> 0 \<Longrightarrow>
   sys_oracle w (sys_calls w + 1) Hostname_has_ip \<noteq> 0 \<Longrightarrow>
     pending (snd (init_check w)) = pending w \<and>
     sources (snd (init_check w)) =
       sources w @ [\<lparr>sid = next_source w, cb = Net_check, period = Some 60, due = now w + 60\<rparr>]"
  by (simp_all add: init_check_def Let_def system_def net_available_eq update_icon_def
      g_timeout_add_seconds_def DEBUG_def check_for_updates_def refresh_update_cache_def
      pk_client_refresh_cache_async_def numeral_2_eq_2)

lemma started_eq:
  "sources (started orc) =
     [\<lparr>sid = 1, cb = Init_check, period = None, due = 0\<rparr>,
      \<lparr>sid = 2, cb = Periodic_check, period = Some 86400, due = 86400\<rparr>]"
  "pending (started orc) = []"
  "sys_calls (started orc) = 0"
  "sys_oracle (started orc) = orc"
  "next_source (started orc) = 3"
  "now (started orc) = 0"
  "fired (started orc) = []"
  by (simp_all add: started_def updater_constructor_def boot_def Let_def
      g_idle_add_def g_timeout_add_seconds_def guint_def SECS_PER_HOUR_def)

lemma polling_world_eq:
  "sources polling_world =
     [\<lparr>sid = 2, cb = Periodic_check, period = Some 86400, due = 86400\<rparr>,
      \<lparr>sid = 3, cb = Net_check, period = Some 60, due = 60\<rparr>]"
  "pending polling_world = []"
  "sys_calls polling_world = 2"
  "sys_oracle polling_world = env_late"
  "now polling_world = 0"
  "fired polling_world = [Init_check]"
  by (simp_all add: polling_world_def run_def dispatch_def started_eq net_available_eq
      init_check_def Let_def system_def update_icon_def g_source_remove_def env_late_def
      g_timeout_add_seconds_def DEBUG_def)

text \<open>
  Claim C9 says that at startup the check runs at once when the network is up.
  \<open>init_check\<close> first asks whether the first-boot wizard piwiz is running and, if so,
  returns: on a networked machine with the wizard running, dispatching the idle source
  starts no check and arms no poll.
\<close>

theorem wizard_counterexample:
  "fst (net_available (started env_wizard)) \<and>
   pending (run [Dispatch 1] (started env_wizard)) = [] \<and>
   sources (run [Dispatch 1] (started env_wizard)) =
     [\<lparr>sid = 2, cb = Periodic_check, period = Some 86400, due = 86400\<rparr>] \<and>
   fired (run [Dispatch 1] (started env_wizard)) = [Init_check]"
  by (simp add: run_def dispatch_def started_eq net_available_eq init_check_def Let_def
      system_def update_icon_def g_source_remove_def)

text \<open>
  Claim C9, amended. The constructor queues \<open>init_check\<close> as an idle source, and
  \<open>init_check\<close> runs once (it returns FALSE). If the wizard piwiz is running it starts
  neither a check nor a poll. Otherwise, if its network probe succeeds it calls
  \<open>check_for_updates\<close> at once, which starts the run when its own probe succeeds too;
  if its network probe fails it arms \<open>net_check\<close> as a 60 second timeout. While the
  probes of \<open>net_check\<close> fail, every poll starts nothing and leaves the source due 60
  seconds later; on the first poll whose probe succeeds (and that of
  \<open>check_for_updates\<close> after it) the run is started and the source is removed.

  The probes are named by their position among the calls of \<open>system\<close>: from a state
  \<open>w\<close>, \<open>init_check\<close> asks for the wizard in call \<open>sys_calls w\<close> and for the network
  in the next one, and \<open>check_for_updates\<close> asks for the network again in the call after
  that; a poll that fails uses one call.
\<close>

theorem startup_check:
  "\<lparr>sid = next_source w, cb = Init_check, period = None, due = now w\<rparr>
     \<in> set (sources (updater_constructor cfg w)) \<and>
   fst (init_check w) = False \<and>
   (sys_oracle w (sys_calls w) Ps_piwiz = 0 \<longrightarrow>
      pending (snd (init_check w)) = pending w \<and> sources (snd (init_check w)) = sources w) \<and>
   (sys_oracle w (sys_calls w) Ps_piwiz \<noteq> 0 \<and>
    sys_oracle w (sys_calls w + 1) Hostname_has_ip = 0 \<and>
    sys_oracle w (sys_calls w + 2) Hostname_has_ip = 0 \<longrightarrow>
      pending (snd (init_check w)) = pending w @ [Refresh_cache] \<and>
      sources (snd (init_check w)) = sources w) \<and>
   (sys_oracle w (sys_calls w) Ps_piwiz \<noteq> 0 \<and>
    sys_oracle w (sys_calls w + 1) Hostname_has_ip \<noteq> 0 \<longrightarrow>
      pending (snd (init_check w)) = pending w \<and>
      sources (snd (init_check w)) =
        sources w @ [\<lparr>sid = next_source w, cb = Net_check, period = Some 60, due = now w + 60\<rparr>]) \<and>
   (find (\<lambda>s. sid s = i) (sources w) =
      Some \<lparr>sid = i, cb = Net_check, period = Some 60, due = now w + 60\<rparr> \<and>
    (\<forall>j<n. sys_oracle w (sys_calls w + j) Hostname_has_ip \<noteq> 0) \<longrightarrow>
      pending (run (polls i n) w) = pending w \<and>
      fired (run (polls i n) w) = fired w @ replicate n Net_check \<and>
      find (\<lambda>s. sid s = i) (sources (run (polls i n) w)) =
        Some \<lparr>sid = i, cb = Net_check, period = Some 60, due = now w + 60 * n + 60\<rparr> \<and>
      (sys_oracle w (sys_calls w + n) Hostname_has_ip = 0 \<and>
       sys_oracle w (sys_calls w + n + 1) Hostname_has_ip = 0 \<longrightarrow>
         pending (run (polls i (Suc n)) w) = pending w @ [Refresh_cache] \<and>
         fired (run (polls i (Suc n)) w) = fired w @ replicate (Suc n) Net_check \<and>
         find (\<lambda>s. sid s = i) (sources (run (polls i (Suc n)) w)) = None))"
proof (intro conjI impI)
  show "\<lparr>sid = next_source w, cb = Init_check, period = None, due = now w\<rparr>
     \<in> set (sources (updater_constructor cfg w))"
    by (rule constructor_idle)
  show "fst (init_check w) = False"
    by simp
next
  assume a: "find (\<lambda>s. sid s = i) (sources w) =
      Some \<lparr>sid = i, cb = Net_check, period = Some 60, due = now w + 60\<rparr> \<and>
    (\<forall>j<n. sys_oracle w (sys_calls w + j) Hostname_has_ip \<noteq> 0)"
  then have off: "find (\<lambda>s. sid s = i) (sources (run (polls i n) w)) =
           Some \<lparr>sid = i, cb = Net_check, period = Some 60, due = now w + 60 * n + 60\<rparr> \<and>
         pending (run (polls i n) w) = pending w \<and>
         fired (run (polls i n) w) = fired w @ replicate n Net_check \<and>
         now (run (polls i n) w) = now w + 60 * n \<and>
         sys_calls (run (polls i n) w) = sys_calls w + n \<and>
         sys_oracle (run (polls i n) w) = sys_oracle w"
    by (intro polls_offline) simp_all
  then show "pending (run (polls i n) w) = pending w"
    and "fired (run (polls i n) w) = fired w @ replicate n Net_check"
    and "find (\<lambda>s. sid s = i) (sources (run (polls i n) w)) =
        Some \<lparr>sid = i, cb = Net_check, period = Some 60, due = now w + 60 * n + 60\<rparr>"
    by simp_all
  assume b: "sys_oracle w (sys_calls w + n) Hostname_has_ip = 0 \<and>
       sys_oracle w (sys_calls w + n + 1) Hostname_has_ip = 0"
  let ?w = "run (polls i n) w"
  have f: "find (\<lambda>s. sid s = i) (sources ?w) =
             Some \<lparr>sid = i, cb = Net_check, period = Some 60, due = now ?w + 60\<rparr>"
    using off by simp
  have p: "sys_oracle ?w (sys_calls ?w) Hostname_has_ip = 0"
    "sys_oracle ?w (Suc (sys_calls ?w)) Hostname_has_ip = 0"
    using off b by simp_all
  note on = poll_online [OF f p]
  have r: "run (polls i (Suc n)) w = run [Elapse 60, Dispatch i] ?w"
    by (simp only: polls_snoc run_append)
  show "pending (run (polls i (Suc n)) w) = pending w @ [Refresh_cache]"
    using on off by (simp only: r)
  show "fired (run (polls i (Suc n)) w) = fired w @ replicate (Suc n) Net_check"
    using on off by (simp only: r) (simp add: replicate_append_same)
  show "find (\<lambda>s. sid s = i) (sources (run (polls i (Suc n)) w)) = None"
    using on by (simp only: r)
qed (simp_all add: init_check_cases)

theorem startup_check_witness:
  "\<lparr>sid = 1, cb = Init_check, period = None, due = 0\<rparr> \<in> set (sources (started env_late)) \<and>
   sys_oracle (started env_wizard) (sys_calls (started env_wizard)) Ps_piwiz = 0 \<and>
   pending (snd (init_check (started env_wizard))) = [] \<and>
   sys_oracle (started env_online) (sys_calls (started env_online)) Ps_piwiz \<noteq> 0 \<and>
   sys_oracle (started env_online) (sys_calls (started env_online) + 1) Hostname_has_ip = 0 \<and>
   sys_oracle (started env_online) (sys_calls (started env_online) + 2) Hostname_has_ip = 0 \<and>
   pending (snd (init_check (started env_online))) = [Refresh_cache] \<and>
   sys_oracle (started env_late) (sys_calls (started env_late)) Ps_piwiz \<noteq> 0 \<and>
   sys_oracle (started env_late) (sys_calls (started env_late) + 1) Hostname_has_ip \<noteq> 0 \<and>
   pending (snd (init_check (started env_late))) = [] \<and>
   sources (snd (init_check (started env_late))) =
     [\<lparr>sid = 1, cb = Init_check, period = None, due = 0\<rparr>,
      \<lparr>sid = 2, cb = Periodic_check, period = Some 86400, due = 86400\<rparr>,
      \<lparr>sid = 3, cb = Net_check, period = Some 60, due = 60\<rparr>] \<and>
   find (\<lambda>s. sid s = 3) (sources polling_world) =
     Some \<lparr>sid = 3, cb = Net_check, period = Some 60, due = now polling_world + 60\<rparr> \<and>
   sys_oracle polling_world (sys_calls polling_world + 0) Hostname_has_ip \<noteq> 0 \<and>
   sys_oracle polling_world (sys_calls polling_world + 1) Hostname_has_ip \<noteq> 0 \<and>
   sys_oracle polling_world (sys_calls polling_world + 2) Hostname_has_ip = 0 \<and>
   sys_oracle polling_world (sys_calls polling_world + 2 + 1) Hostname_has_ip = 0 \<and>
   pending (run (polls 3 2) polling_world) = [] \<and>
   find (\<lambda>s. sid s = 3) (sources (run (polls 3 2) polling_world)) =
     Some \<lparr>sid = 3, cb = Net_check, period = Some 60, due = 180\<rparr> \<and>
   pending (run (polls 3 (Suc 2)) polling_world) = [Refresh_cache] \<and>
   fired (run (polls 3 (Suc 2)) polling_world) = [Init_check, Net_check, Net_check, Net_check] \<and>
   find (\<lambda>s. sid s = 3) (sources (run (polls 3 (Suc 2)) polling_world)) = None"
proof -
  have q: "\<forall>j<2. sys_oracle polling_world (sys_calls polling_world + j) Hostname_has_ip \<noteq> 0"
    by (simp add: polling_world_eq env_late_def)
  have r: "replicate 2 Net_check = [Net_check, Net_check]"
    "replicate 3 Net_check = [Net_check, Net_check, Net_check]"
    by (simp_all add: numeral_2_eq_2 numeral_3_eq_3)
  show ?thesis
    using startup_check [of "started env_wizard" Map.empty 0 0]
      startup_check [of "started env_online" Map.empty 0 0]
      startup_check [of "started env_late" Map.empty 0 0]
      startup_check [of polling_world Map.empty 3 2] q r
    by (simp add: started_eq polling_world_eq env_late_def started_def [symmetric] boot_def
        del: polls.simps replicate_Suc)
qed

end
